theory Spec2Isabelle
  imports Main "HOL-Library.Word"
begin

section \<open>The audio buffer pool and its handles (core/audio/processor.hpp)\<close>

text \<open>
  A shallow embedding of \<^verbatim>\<open>AudioBufferHandle\<close>, \<^verbatim>\<open>AudioBufferPool\<close> and
  \<^verbatim>\<open>ProcessData\<close>.

  \<^item> Integers have the widths of the LP64 data model: \<^verbatim>\<open>int\<close> is a 32-bit word read
    in two's complement (\<open>sint\<close>), \<^verbatim>\<open>std::size_t\<close> and \<^verbatim>\<open>long\<close> are 64-bit words.
    \<^verbatim>\<open>++\<close> and \<^verbatim>\<open>--\<close> on an \<^verbatim>\<open>int\<close> are \<open>+ 1\<close> and \<open>- 1\<close> on the word; conversions
    between the two widths are \<open>ucast\<close> (truncation), \<open>scast\<close> (sign extension).
  \<^item> An \<^verbatim>\<open>int*\<close> to a live-count is the index of a cell in the vector of counts
    (\<^verbatim>\<open>reference_counts\<close> of the pool), \<open>None\<close> for \<^verbatim>\<open>nullptr\<close>. Every operation
    that reads or writes through such a pointer takes the vector and returns it
    updated; going through \<^verbatim>\<open>nullptr\<close>, or through an index that is no cell, is a fault.
  \<^item> A \<^verbatim>\<open>float*\<close> is an address counted in samples, \<open>None\<close> for \<^verbatim>\<open>nullptr\<close>. Sample
    memory holds the value at every address and the extent of every live array; a
    load or a store at an address outside every live array is a fault. The sample
    type is a parameter: the code only ever stores the constant zero.
  \<^item> What the allocator does is given to the operations that allocate: the address
    of the new array of \<^verbatim>\<open>std::make_unique<float[]>\<close> (none when the allocation
    throws), and whether the vector of counts gets room when it has to grow. An
    exception that leaves a \<^verbatim>\<open>noexcept\<close> function is \<^verbatim>\<open>std::terminate()\<close>.
  \<^item> A call of \<^verbatim>\<open>std::terminate()\<close>, an access through a null pointer and an access
    out of bounds are results of their own (\<open>fault\<close>), never a value of the operation.
  \<^item> Messages to the log (\<^verbatim>\<open>LOGI\<close>, \<^verbatim>\<open>LOGF\<close>) are not modelled.
\<close>

type_synonym cint = "32 word"
type_synonym size_t = "64 word"
type_synonym counts = "cint list"

datatype fault = Terminate | NullDereference | DanglingReference | OutOfBounds

subsection \<open>Access through a pointer to a live-count\<close>

definition read_cell :: "nat option \<Rightarrow> counts \<Rightarrow> fault + cint" where
  "read_cell r cells =
     (case r of
        None \<Rightarrow> Inl NullDereference
      | Some i \<Rightarrow> if i < length cells then Inr (cells ! i) else Inl DanglingReference)"

definition update_cell :: "(cint \<Rightarrow> cint) \<Rightarrow> nat option \<Rightarrow> counts \<Rightarrow> fault + counts" where
  "update_cell f r cells =
     (case r of
        None \<Rightarrow> Inl NullDereference
      | Some i \<Rightarrow> if i < length cells then Inr (cells[i := f (cells ! i)])
                 else Inl DanglingReference)"

definition ptr_add :: "int option \<Rightarrow> int \<Rightarrow> int option" where
  "ptr_add p k = map_option (\<lambda>a. a + k) p"

subsection \<open>Sample memory\<close>

text \<open>
  \<open>samples\<close> is the value at each address, \<open>arrays\<close> the live arrays of samples,
  each by the address of its first element and its number of elements.
\<close>

record 'a memory =
  samples :: "int \<Rightarrow> 'a"
  arrays :: "(int \<times> nat) list"

definition in_array :: "'a memory \<Rightarrow> int \<Rightarrow> bool" where
  "in_array m x = list_ex (\<lambda>(base, n). base \<le> x \<and> x < base + int n) (arrays m)"

definition load_sample :: "int \<Rightarrow> 'a memory \<Rightarrow> fault + 'a" where
  "load_sample x m = (if in_array m x then Inr (samples m x) else Inl OutOfBounds)"

definition store_sample :: "int \<Rightarrow> 'a \<Rightarrow> 'a memory \<Rightarrow> fault + 'a memory" where
  "store_sample x v m =
     (if in_array m x then Inr (m\<lparr>samples := (samples m)(x := v)\<rparr>) else Inl OutOfBounds)"

subsection \<open>AudioBufferHandle\<close>

text \<open>The private members \<^verbatim>\<open>_data\<close>, \<^verbatim>\<open>_length\<close> and \<^verbatim>\<open>_reference_count\<close>.\<close>

record AudioBufferHandle =
  m_data :: "int option"
  m_length :: size_t
  m_reference_count :: "nat option"

text \<open>
  \<^verbatim>\<open>AudioBufferHandle(float* data, std::size_t length, int& reference_count)\<close>:
  the reference is to cell \<open>r\<close>; the body is \<^verbatim>\<open>(*_reference_count)++\<close>.
\<close>

definition AudioBufferHandle_ctor ::
  "int option \<Rightarrow> size_t \<Rightarrow> nat \<Rightarrow> counts \<Rightarrow> fault + (AudioBufferHandle \<times> counts)" where
  "AudioBufferHandle_ctor d len r cells =
     (case update_cell (\<lambda>c. c + 1) (Some r) cells of
        Inl e \<Rightarrow> Inl e
      | Inr cells' \<Rightarrow>
          Inr (\<lparr>m_data = d, m_length = len, m_reference_count = Some r\<rparr>, cells'))"

text \<open>\<^verbatim>\<open>~AudioBufferHandle()\<close>: \<^verbatim>\<open>if (_reference_count) (*_reference_count)--;\<close>\<close>

definition AudioBufferHandle_dtor :: "AudioBufferHandle \<Rightarrow> counts \<Rightarrow> fault + counts" where
  "AudioBufferHandle_dtor h cells =
     (case m_reference_count h of
        None \<Rightarrow> Inr cells
      | Some r \<Rightarrow> update_cell (\<lambda>c. c - 1) (Some r) cells)"

text \<open>
  The move constructor touches no count: it returns the new handle and the source as
  it is left (\<^verbatim>\<open>rhs._data = nullptr; rhs._reference_count = nullptr;\<close>).
\<close>

definition move_ctor :: "AudioBufferHandle \<Rightarrow> AudioBufferHandle \<times> AudioBufferHandle" where
  "move_ctor rhs =
     (\<lparr>m_data = m_data rhs, m_length = m_length rhs, m_reference_count = m_reference_count rhs\<rparr>,
      rhs\<lparr>m_data := None, m_reference_count := None\<rparr>)"

text \<open>The copy constructor: the members are copied, then \<^verbatim>\<open>(*_reference_count)++\<close>.\<close>

definition copy_ctor :: "AudioBufferHandle \<Rightarrow> counts \<Rightarrow> fault + (AudioBufferHandle \<times> counts)" where
  "copy_ctor rhs cells =
     (case update_cell (\<lambda>c. c + 1) (m_reference_count rhs) cells of
        Inl e \<Rightarrow> Inl e
      | Inr cells' \<Rightarrow>
          Inr (\<lparr>m_data = m_data rhs, m_length = m_length rhs,
                m_reference_count = m_reference_count rhs\<rparr>, cells'))"

text \<open>
  \<^verbatim>\<open>operator=(AudioBufferHandle&& rhs)\<close>, for two distinct objects: the target \<open>lhs\<close>
  and the source as they are left. When target and source are one object
  (\<^verbatim>\<open>h = std::move(h)\<close>) the three copies change nothing and the two null stores
  leave that object without data and count pointer: \<open>move_assign_self\<close>.
\<close>

definition move_assign ::
  "AudioBufferHandle \<Rightarrow> AudioBufferHandle \<Rightarrow> AudioBufferHandle \<times> AudioBufferHandle" where
  "move_assign lhs rhs =
     (lhs\<lparr>m_data := m_data rhs, m_length := m_length rhs, m_reference_count := m_reference_count rhs\<rparr>,
      rhs\<lparr>m_data := None, m_reference_count := None\<rparr>)"

definition move_assign_self :: "AudioBufferHandle \<Rightarrow> AudioBufferHandle" where
  "move_assign_self h = h\<lparr>m_data := None, m_reference_count := None\<rparr>"

text \<open>
  \<^verbatim>\<open>operator=(const AudioBufferHandle& rhs)\<close>: the three members are overwritten,
  then the count the target now points to is incremented. When target and source are
  one object (\<^verbatim>\<open>h = h\<close>) only the increment has an effect: \<open>copy_assign_self\<close>.
\<close>

definition copy_assign ::
  "AudioBufferHandle \<Rightarrow> AudioBufferHandle \<Rightarrow> counts \<Rightarrow> fault + (AudioBufferHandle \<times> counts)" where
  "copy_assign lhs rhs cells =
     (let lhs' = lhs\<lparr>m_data := m_data rhs, m_length := m_length rhs,
                     m_reference_count := m_reference_count rhs\<rparr>
      in case update_cell (\<lambda>c. c + 1) (m_reference_count lhs') cells of
           Inl e \<Rightarrow> Inl e
         | Inr cells' \<Rightarrow> Inr (lhs', cells'))"

definition copy_assign_self ::
  "AudioBufferHandle \<Rightarrow> counts \<Rightarrow> fault + (AudioBufferHandle \<times> counts)" where
  "copy_assign_self h cells =
     (case update_cell (\<lambda>c. c + 1) (m_reference_count h) cells of
        Inl e \<Rightarrow> Inl e
      | Inr cells' \<Rightarrow> Inr (h, cells'))"

definition reference_count :: "AudioBufferHandle \<Rightarrow> counts \<Rightarrow> fault + cint" where
  "reference_count h cells = read_cell (m_reference_count h) cells"

definition size_h :: "AudioBufferHandle \<Rightarrow> size_t" where
  "size_h h = m_length h"

text \<open>\<^verbatim>\<open>operator[](std::size_t i)\<close>, read: \<^verbatim>\<open>_data[i]\<close>.\<close>

definition subscript :: "AudioBufferHandle \<Rightarrow> size_t \<Rightarrow> 'a memory \<Rightarrow> fault + 'a" where
  "subscript h i m =
     (case m_data h of
        None \<Rightarrow> Inl NullDereference
      | Some a \<Rightarrow> load_sample (a + uint i) m)"

text \<open>
  \<^verbatim>\<open>release()\<close>: \<^verbatim>\<open>(*_reference_count)--; _reference_count = nullptr; _data = nullptr;\<close>
\<close>

definition release :: "AudioBufferHandle \<Rightarrow> counts \<Rightarrow> fault + (AudioBufferHandle \<times> counts)" where
  "release h cells =
     (case update_cell (\<lambda>c. c - 1) (m_reference_count h) cells of
        Inl e \<Rightarrow> Inl e
      | Inr cells' \<Rightarrow> Inr (h\<lparr>m_reference_count := None, m_data := None\<rparr>, cells'))"

text \<open>
  \<^verbatim>\<open>std::fill(first, last, value)\<close> over \<open>n\<close> elements from \<open>first\<close>:
  \<^verbatim>\<open>for (; first != last; ++first) *first = value;\<close>
  It stops at the first store that is out of bounds.
\<close>

fun fill :: "int \<Rightarrow> nat \<Rightarrow> 'a \<Rightarrow> 'a memory \<Rightarrow> fault + 'a memory" where
  "fill first 0 v m = Inr m"
| "fill first (Suc n) v m =
     (case store_sample first v m of
        Inl e \<Rightarrow> Inl e
      | Inr m' \<Rightarrow> fill (first + 1) n v m')"

text \<open>
  \<^verbatim>\<open>clear()\<close>: \<^verbatim>\<open>std::fill(begin(), end(), 0)\<close> with \<^verbatim>\<open>begin() = _data\<close> and
  \<^verbatim>\<open>end() = _data + _length\<close>. On a null \<^verbatim>\<open>_data\<close> the range is empty when the
  length is 0; otherwise the first store goes through \<^verbatim>\<open>nullptr\<close>.
\<close>

definition clear :: "AudioBufferHandle \<Rightarrow> 'a::zero memory \<Rightarrow> fault + 'a memory" where
  "clear h m =
     (case m_data h of
        None \<Rightarrow> if m_length h = 0 then Inr m else Inl NullDereference
      | Some a \<Rightarrow> fill a (unat (m_length h)) 0 m)"

text \<open>
  \<^verbatim>\<open>slice(int idx, int length = -1)\<close>:
  \<^verbatim>\<open>length = length < 0 ? _length - idx : length;\<close>
  \<^verbatim>\<open>return {_data + idx, std::size_t(length), *_reference_count};\<close>
  The subtraction is done in \<^verbatim>\<open>std::size_t\<close> (\<open>idx\<close> sign-extended), its result is
  truncated to \<^verbatim>\<open>int\<close> by the assignment, and \<^verbatim>\<open>std::size_t(length)\<close> sign-extends
  again. The returned handle is built by the three-argument constructor.
\<close>

definition slice_h ::
  "AudioBufferHandle \<Rightarrow> cint \<Rightarrow> cint \<Rightarrow> counts \<Rightarrow> fault + (AudioBufferHandle \<times> counts)" where
  "slice_h h idx len cells =
     (let len' = (if sint len < 0 then ucast (m_length h - scast idx) else len) :: cint
      in case m_reference_count h of
           None \<Rightarrow> Inl NullDereference
         | Some r \<Rightarrow>
             AudioBufferHandle_ctor (ptr_add (m_data h) (sint idx)) (scast len') r cells)"

text \<open>A handle is live on a vector of counts when it points to one of its cells.\<close>

definition live :: "AudioBufferHandle \<Rightarrow> counts \<Rightarrow> bool" where
  "live h cells =
     (case m_reference_count h of None \<Rightarrow> False | Some r \<Rightarrow> r < length cells)"

subsection \<open>AudioBufferPool\<close>

record AudioBufferPool =
  buffer_size :: size_t
  reference_counts :: counts
  avaliable_buffers :: size_t
  data :: "int option"
  max_val :: size_t

definition number_of_buffers :: cint where
  "number_of_buffers = 8"

text \<open>
  \<^verbatim>\<open>std::vector::resize(n, v)\<close>: a longer vector is cut to \<open>n\<close> elements, a shorter
  one gets copies of \<open>v\<close> appended; elements that stay keep their values.
\<close>

definition resize :: "nat \<Rightarrow> 'a \<Rightarrow> 'a list \<Rightarrow> 'a list" where
  "resize n v xs =
     (if n \<le> length xs then take n xs else xs @ replicate (n - length xs) v)"

text \<open>
  What the allocator does during one operation: \<open>array_at\<close> is the address it gives
  the new array of samples (never that of an array that is live), \<open>None\<close> when it
  throws \<^verbatim>\<open>std::bad_alloc\<close>; \<open>vector_room\<close> says whether a vector that has to grow
  gets its room.
\<close>

record allocator =
  array_at :: "int option"
  vector_room :: bool

definition sizeof_float :: nat where
  "sizeof_float = 4"

text \<open>
  \<^verbatim>\<open>std::make_unique<float[]>(k)\<close>, that is \<^verbatim>\<open>new float[k]()\<close>: \<open>None\<close> when it throws. It
  throws \<^verbatim>\<open>std::bad_array_new_length\<close> when the size in bytes is beyond \<^verbatim>\<open>std::size_t\<close>,
  and \<^verbatim>\<open>std::bad_alloc\<close> when the allocator has no room. Otherwise the new array of
  \<open>k\<close> elements is live and its elements are value-initialised (zero).
\<close>

definition make_unique ::
  "size_t \<Rightarrow> allocator \<Rightarrow> 'a::zero memory \<Rightarrow> (int \<times> 'a memory) option" where
  "make_unique k env m =
     (if 2 ^ 64 \<le> sizeof_float * unat k then None
      else case array_at env of
             None \<Rightarrow> None
           | Some base \<Rightarrow>
               Some (base,
                     \<lparr>samples = (\<lambda>x. if base \<le> x \<and> x < base + int (unat k) then 0
                                     else samples m x),
                      arrays = (base, unat k) # arrays m\<rparr>))"

text \<open>The array a \<^verbatim>\<open>std::unique_ptr<float[]>\<close> owned is deleted when it gets a new one.\<close>

definition delete_array :: "int option \<Rightarrow> 'a memory \<Rightarrow> 'a memory" where
  "delete_array d m =
     (case d of
        None \<Rightarrow> m
      | Some base \<Rightarrow> m\<lparr>arrays := filter (\<lambda>(b, n). b \<noteq> base) (arrays m)\<rparr>)"

text \<open>
  \<^verbatim>\<open>reserve(n)\<close>, which is \<^verbatim>\<open>noexcept\<close>:
  \<^verbatim>\<open>data = std::make_unique<float[]>(n * buffer_size);\<close> (the product is taken in
  \<^verbatim>\<open>std::size_t\<close>; the new array is made first, then the old one is deleted),
  \<^verbatim>\<open>_avaliable_buffers = n; reference_counts.resize(_avaliable_buffers, 0);\<close>
  An exception of the allocation, or of a \<^verbatim>\<open>resize\<close> that has to grow the vector, ends
  in \<^verbatim>\<open>std::terminate()\<close>.
\<close>

definition reserve ::
  "size_t \<Rightarrow> allocator \<Rightarrow> AudioBufferPool \<Rightarrow> 'a::zero memory \<Rightarrow>
     fault + (AudioBufferPool \<times> 'a memory)" where
  "reserve n env p m =
     (case make_unique (n * buffer_size p) env m of
        None \<Rightarrow> Inl Terminate
      | Some (base, m') \<Rightarrow>
          if length (reference_counts p) < unat n \<and> \<not> vector_room env then Inl Terminate
          else Inr (p\<lparr>data := Some base,
                      avaliable_buffers := n,
                      reference_counts := resize (unat n) 0 (reference_counts p)\<rparr>,
                    delete_array (data p) m'))"

text \<open>
  The constructor: the default member initialisers (\<^verbatim>\<open>_avaliable_buffers = 0\<close>,
  \<^verbatim>\<open>_max_val = -1\<close>, an empty vector, a null \<^verbatim>\<open>data\<close>), then
  \<^verbatim>\<open>reserve(number_of_buffers)\<close>.
\<close>

definition AudioBufferPool_ctor ::
  "size_t \<Rightarrow> allocator \<Rightarrow> 'a::zero memory \<Rightarrow> fault + (AudioBufferPool \<times> 'a memory)" where
  "AudioBufferPool_ctor bs env m =
     reserve (scast number_of_buffers) env
       \<lparr>buffer_size = bs, reference_counts = [], avaliable_buffers = 0,
        data = None, max_val = - 1\<rparr> m"

text \<open>\<^verbatim>\<open>set_buffer_size(bs)\<close>: \<^verbatim>\<open>buffer_size = bs; reserve(number_of_buffers);\<close>\<close>

definition set_buffer_size ::
  "size_t \<Rightarrow> allocator \<Rightarrow> AudioBufferPool \<Rightarrow> 'a::zero memory \<Rightarrow>
     fault + (AudioBufferPool \<times> 'a memory)" where
  "set_buffer_size bs env p m =
     reserve (scast number_of_buffers) env (p\<lparr>buffer_size := bs\<rparr>) m"

text \<open>
  The body of the loop of \<^verbatim>\<open>allocate()\<close> at a slot \<open>i\<close> whose count is below 1:
  \<^verbatim>\<open>_max_val\<close> is raised when \<^verbatim>\<open>i > _max_val\<close> (the message to the log is not
  modelled), the count is set to 0, \<^verbatim>\<open>int index = i * buffer_size\<close> is the product in
  \<^verbatim>\<open>std::size_t\<close> truncated to \<^verbatim>\<open>int\<close>, and the returned handle is built in place
  by the three-argument constructor on \<^verbatim>\<open>reference_counts[i]\<close>.
\<close>

definition allocate_at ::
  "nat \<Rightarrow> AudioBufferPool \<Rightarrow> fault + (AudioBufferHandle \<times> AudioBufferPool)" where
  "allocate_at i p =
     (let p1 = (if max_val p < of_nat i then p\<lparr>max_val := of_nat i\<rparr> else p);
          p2 = p1\<lparr>reference_counts := (reference_counts p1)[i := 0]\<rparr>;
          index = (ucast (of_nat i * buffer_size p2) :: cint)
      in case AudioBufferHandle_ctor (ptr_add (data p2) (sint index)) (buffer_size p2) i
                (reference_counts p2) of
           Inl e \<Rightarrow> Inl e
         | Inr (h, cells) \<Rightarrow> Inr (h, p2\<lparr>reference_counts := cells\<rparr>))"

text \<open>
  The loop of \<^verbatim>\<open>allocate()\<close> from index \<open>i\<close> on:
  \<^verbatim>\<open>for (i = 0; i < reference_counts.size(); i++) if (reference_counts[i] < 1) ...\<close>,
  and \<^verbatim>\<open>std::terminate()\<close> when the loop ends.
\<close>

function allocate_loop ::
  "nat \<Rightarrow> AudioBufferPool \<Rightarrow> fault + (AudioBufferHandle \<times> AudioBufferPool)" where
  "allocate_loop i p =
     (if i < length (reference_counts p) then
        if sint (reference_counts p ! i) < 1 then allocate_at i p
        else allocate_loop (Suc i) p
      else Inl Terminate)"
  by pat_completeness auto
termination
  by (relation "measure (\<lambda>(i, p). length (reference_counts p) - i)") auto

declare allocate_loop.simps [simp del]

definition allocate :: "AudioBufferPool \<Rightarrow> fault + (AudioBufferHandle \<times> AudioBufferPool)" where
  "allocate p = allocate_loop 0 p"

text \<open>
  \<^verbatim>\<open>allocate_clear()\<close>: \<^verbatim>\<open>auto res = allocate(); res.clear(); return res;\<close>
  Returning the local \<open>res\<close> constructs the result in place or moves it, and a move
  followed by the destruction of its inert source changes no count.
\<close>

definition allocate_clear ::
  "AudioBufferPool \<Rightarrow> 'a::zero memory \<Rightarrow>
     fault + (AudioBufferHandle \<times> AudioBufferPool \<times> 'a memory)" where
  "allocate_clear p m =
     (case allocate p of
        Inl e \<Rightarrow> Inl e
      | Inr (res, p') \<Rightarrow>
          (case clear res m of
             Inl e \<Rightarrow> Inl e
           | Inr m' \<Rightarrow> Inr (res, p', m')))"

subsection \<open>ProcessData\<close>

text \<open>
  Modelled from the spec: \<^verbatim>\<open>midi::shared_vector\<close> is declared in core/audio/midi.hpp,
  which is not among the sources. The spec calls it a shared sequence of MIDI events
  that is shared, not copied, between packets: a value of the type names the sequence
  it shares, and \<open>events\<close> reads the sequence it names in a store of sequences.
\<close>

datatype shared_vector = SharedVector nat

fun events :: "(nat \<Rightarrow> 'e list) \<Rightarrow> shared_vector \<Rightarrow> 'e list" where
  "events store (SharedVector v) = store v"

text \<open>
  The members of \<^verbatim>\<open>ProcessData<N>\<close>; the array of \<open>N\<close> handles is a list of
  length \<open>N\<close>, and \<^verbatim>\<open>long nframes\<close> a 64-bit word.
\<close>

record ProcessData =
  audio :: "AudioBufferHandle list"
  midi :: shared_vector
  nframes :: "64 word"

text \<open>
  Modelled from the spec: \<^verbatim>\<open>ProcessData<N>::redirect\<close> is declared in processor.hpp
  and defined in processor.inl, which is not among the sources. By the spec it
  "produces a new packet over a different set of M audio handles, while carrying
  forward this packet's MIDI sequence and frame count unchanged". The shares the
  handles of the new packet take are not part of this definition.
\<close>

definition redirect :: "ProcessData \<Rightarrow> AudioBufferHandle list \<Rightarrow> ProcessData" where
  "redirect p buf = \<lparr>audio = buf, midi = midi p, nframes = nframes p\<rparr>"

section \<open>Auxiliary facts\<close>

lemma update_cell_live:
  "r < length cells \<Longrightarrow> update_cell f (Some r) cells = Inr (cells[r := f (cells ! r)])"
  by (simp add: update_cell_def)

lemma live_SomeD: "live h cells \<Longrightarrow> \<exists>r. m_reference_count h = Some r \<and> r < length cells"
  by (cases "m_reference_count h") (simp_all add: live_def)

text \<open>Conversions between \<^verbatim>\<open>int\<close> and \<^verbatim>\<open>std::size_t\<close> on values both can hold.\<close>

lemma uint_scast_nonneg:
  assumes "0 \<le> sint (x :: cint)"
  shows "uint (scast x :: size_t) = sint x"
proof -
  have "sint x < 2 ^ 31" using sint_lt [of x] by simp
  then have "sint x < 2 ^ 64" by simp
  moreover have "uint (scast x :: size_t) = take_bit 64 (sint x)"
    by (simp only: scast_eq uint_word_of_int_eq) simp
  ultimately show ?thesis using assms by (simp add: take_bit_int_eq_self)
qed

text \<open>What \<^verbatim>\<open>resize\<close> leaves in a cell, and a \<^verbatim>\<open>std::fill\<close> that starts out of bounds.\<close>

lemma resize_nth:
  "i < n \<Longrightarrow> resize n v xs ! i = (if i < length xs then xs ! i else v)"
  by (simp add: resize_def nth_append)

lemma length_resize: "length (resize n v xs) = n"
  by (simp add: resize_def)

lemma scast_number_of_buffers: "(scast number_of_buffers :: size_t) = 8"
  by (simp add: number_of_buffers_def)

lemma resize_empty_8: "resize 8 v [] = [v, v, v, v, v, v, v, v]"
  by (simp add: resize_def numeral_eq_Suc)

lemma fill_fault:
  "0 < n \<Longrightarrow> \<not> in_array m first \<Longrightarrow> fill first n v m = Inl OutOfBounds"
  by (cases n) (simp_all add: store_sample_def)

text \<open>
  The loop of \<^verbatim>\<open>allocate()\<close>: it ends in \<^verbatim>\<open>std::terminate()\<close> when no count from
  \<open>i\<close> on is below 1, and otherwise runs the body at the first such count.
\<close>

lemma allocate_at_live:
  assumes "i < length (reference_counts p)"
  shows "allocate_at i p =
           Inr (\<lparr>m_data = ptr_add (data p) (sint (ucast (of_nat i * buffer_size p) :: cint)),
                 m_length = buffer_size p, m_reference_count = Some i\<rparr>,
                p\<lparr>max_val := (if max_val p < of_nat i then of_nat i else max_val p),
                  reference_counts := (reference_counts p)[i := 1]\<rparr>)"
  using assms
  by (simp add: allocate_at_def Let_def AudioBufferHandle_ctor_def update_cell_live)

lemma allocate_loop_exhausted:
  "(\<And>j. i \<le> j \<Longrightarrow> j < length (reference_counts p) \<Longrightarrow> \<not> sint (reference_counts p ! j) < 1)
     \<Longrightarrow> allocate_loop i p = Inl Terminate"
proof (induction i p rule: allocate_loop.induct)
  case (1 i p)
  show ?case
  proof (cases "i < length (reference_counts p)")
    case True
    then have busy: "\<not> sint (reference_counts p ! i) < 1" using "1.prems" by simp
    have "allocate_loop (Suc i) p = Inl Terminate"
      using "1.IH" [OF True busy] "1.prems" by simp
    then show ?thesis using True busy by (simp add: allocate_loop.simps [of i p])
  next
    case False
    then show ?thesis by (simp add: allocate_loop.simps [of i p])
  qed
qed

lemma allocate_loop_first:
  "i \<le> k \<Longrightarrow> k < length (reference_counts p) \<Longrightarrow> sint (reference_counts p ! k) < 1
     \<Longrightarrow> (\<And>j. i \<le> j \<Longrightarrow> j < k \<Longrightarrow> \<not> sint (reference_counts p ! j) < 1)
     \<Longrightarrow> allocate_loop i p = allocate_at k p"
proof (induction i p rule: allocate_loop.induct)
  case (1 i p)
  have len: "i < length (reference_counts p)" using "1.prems"(1,2) by simp
  show ?case
  proof (cases "i = k")
    case True
    then show ?thesis using len "1.prems"(3) by (simp add: allocate_loop.simps [of k p])
  next
    case False
    then have lt: "i < k" using "1.prems"(1) by simp
    then have busy: "\<not> sint (reference_counts p ! i) < 1" using "1.prems"(4) by simp
    have "allocate_loop (Suc i) p = allocate_at k p"
      using "1.IH" [OF len busy] lt "1.prems"(2,3,4) by simp
    then show ?thesis using len busy by (simp add: allocate_loop.simps [of i p])
  qed
qed

lemma first_free_exists:
  assumes "\<exists>k < length cells. sint (cells ! k :: cint) < 1"
  shows "\<exists>i < length cells. sint (cells ! i) < 1 \<and> (\<forall>j < i. \<not> sint (cells ! j) < 1)"
proof -
  let ?P = "\<lambda>k. k < length cells \<and> sint (cells ! k) < 1"
  from assms obtain k where "?P k" by blast
  then have "?P (LEAST k. ?P k)" by (rule LeastI)
  moreover have "\<forall>j < (LEAST k. ?P k). \<not> sint (cells ! j) < 1"
  proof (intro allI impI)
    fix j assume j: "j < (LEAST k. ?P k)"
    then have "\<not> ?P j" by (rule not_less_Least)
    moreover have "j < length cells" using j \<open>?P (LEAST k. ?P k)\<close> by simp
    ultimately show "\<not> sint (cells ! j) < 1" by simp
  qed
  ultimately show ?thesis by blast
qed

text \<open>
  Assignment writes no count but the one its source points to: the count the
  target pointed to before is left as it was.
\<close>

lemma copy_assign_counts:
  assumes "m_reference_count g = Some t" and "t < length cells"
  shows "copy_assign h g cells =
           Inr (h\<lparr>m_data := m_data g, m_length := m_length g, m_reference_count := Some t\<rparr>,
                cells[t := cells ! t + 1])"
  using assms by (simp add: copy_assign_def update_cell_live)

lemma copy_assign_target_count:
  assumes "m_reference_count g = Some t" and "t < length cells" and "s \<noteq> t"
  shows "\<exists>h' cells'. copy_assign h g cells = Inr (h', cells') \<and> cells' ! s = cells ! s"
  using copy_assign_counts [OF assms(1,2)] assms(3) by simp

text \<open>
  What \<^verbatim>\<open>allocate()\<close> returns when a slot is free: the handle built on the first
  count below 1, with the data pointer \<^verbatim>\<open>data.get() + index\<close> for the \<^verbatim>\<open>int index\<close> of the
  code; that count becomes 1 and no other is written.
\<close>

lemma allocate_returns_first_free:
  assumes "\<exists>k < length (reference_counts p). sint (reference_counts p ! k) < 1"
  shows "\<exists>i h p'.
           i < length (reference_counts p) \<and> sint (reference_counts p ! i) < 1
         \<and> (\<forall>j < i. \<not> sint (reference_counts p ! j) < 1)
         \<and> allocate p = Inr (h, p')
         \<and> m_reference_count h = Some i
         \<and> size_h h = buffer_size p
         \<and> m_data h = ptr_add (data p) (sint (ucast (of_nat i * buffer_size p) :: cint))
         \<and> reference_count h (reference_counts p') = Inr 1
         \<and> reference_counts p' = (reference_counts p)[i := 1]
         \<and> buffer_size p' = buffer_size p \<and> data p' = data p"
proof -
  from assms obtain i where i: "i < length (reference_counts p)"
      "sint (reference_counts p ! i) < 1" "\<forall>j < i. \<not> sint (reference_counts p ! j) < 1"
    using first_free_exists by blast
  let ?h = "\<lparr>m_data = ptr_add (data p) (sint (ucast (of_nat i * buffer_size p) :: cint)),
             m_length = buffer_size p, m_reference_count = Some i\<rparr>"
  let ?p' = "p\<lparr>max_val := (if max_val p < of_nat i then of_nat i else max_val p),
               reference_counts := (reference_counts p)[i := 1]\<rparr>"
  have "allocate p = allocate_at i p"
    using i by (simp add: allocate_def allocate_loop_first)
  then have alloc: "allocate p = Inr (?h, ?p')"
    using allocate_at_live [OF i(1)] by simp
  have count: "reference_count ?h (reference_counts ?p') = Inr 1"
    using i(1) by (simp add: reference_count_def read_cell_def)
  have rest: "m_reference_count ?h = Some i" "size_h ?h = buffer_size p"
      "reference_counts ?p' = (reference_counts p)[i := 1]"
      "buffer_size ?p' = buffer_size p" "data ?p' = data p"
    by (simp_all add: size_h_def)
  from i alloc count rest show ?thesis
    by (intro exI [of _ i] exI [of _ ?h] exI [of _ ?p'] conjI) (simp_all only: AudioBufferHandle.simps)
qed

section \<open>The pool\<close>

text \<open>
  C1. When no slot of the pool has a live-count below 1, \<^verbatim>\<open>allocate()\<close> returns no
  handle: it ends in \<^verbatim>\<open>std::terminate()\<close>. In every state in which at least one slot
  has a live-count below 1, \<^verbatim>\<open>allocate()\<close> returns a handle.
\<close>

theorem allocate_terminates_iff_exhausted:
  "((\<forall>i < length (reference_counts p). \<not> sint (reference_counts p ! i) < 1)
      \<longrightarrow> allocate p = Inl Terminate)
   \<and> ((\<exists>i < length (reference_counts p). sint (reference_counts p ! i) < 1)
      \<longrightarrow> (\<exists>h p'. allocate p = Inr (h, p')))"
proof (intro conjI impI)
  assume "\<forall>i < length (reference_counts p). \<not> sint (reference_counts p ! i) < 1"
  then show "allocate p = Inl Terminate"
    by (simp add: allocate_def allocate_loop_exhausted)
next
  assume "\<exists>i < length (reference_counts p). sint (reference_counts p ! i) < 1"
  then obtain i where i: "i < length (reference_counts p)" "sint (reference_counts p ! i) < 1"
      "\<forall>j < i. \<not> sint (reference_counts p ! j) < 1"
    using first_free_exists by blast
  then have "allocate p = allocate_at i p"
    by (simp add: allocate_def allocate_loop_first)
  then show "\<exists>h p'. allocate p = Inr (h, p')"
    using allocate_at_live [OF i(1)] by simp
qed

theorem allocate_terminates_iff_exhausted_witness:
  "allocate \<lparr>buffer_size = 64, reference_counts = [1, 1, 2, 1, 1, 1, 1, 1],
             avaliable_buffers = 8, data = Some 0, max_val = - 1\<rparr> = Inl Terminate
   \<and> allocate \<lparr>buffer_size = 64, reference_counts = [1, 1, 0, 1, 1, 1, 1, 1],
               avaliable_buffers = 8, data = Some 0, max_val = - 1\<rparr>
       = Inr (\<lparr>m_data = Some 128, m_length = 64, m_reference_count = Some 2\<rparr>,
              \<lparr>buffer_size = 64, reference_counts = [1, 1, 1, 1, 1, 1, 1, 1],
               avaliable_buffers = 8, data = Some 0, max_val = - 1\<rparr>)"
proof -
  let ?full = "\<lparr>buffer_size = 64, reference_counts = [1, 1, 2, 1, 1, 1, 1, 1],
                avaliable_buffers = 8, data = Some 0, max_val = (- 1 :: size_t)\<rparr>"
  let ?free = "\<lparr>buffer_size = 64, reference_counts = [1, 1, 0, 1, 1, 1, 1, 1],
                avaliable_buffers = 8, data = Some 0, max_val = (- 1 :: size_t)\<rparr>"
  have "\<forall>i < length (reference_counts ?full). \<not> sint (reference_counts ?full ! i) < 1"
    by (simp add: All_less_Suc numeral_eq_Suc)
  then have "allocate ?full = Inl Terminate"
    using allocate_terminates_iff_exhausted [of ?full] by blast
  moreover have "\<exists>i < length (reference_counts ?free). sint (reference_counts ?free ! i) < 1"
    by (rule exI [of _ 2]) simp
  then have "\<exists>h p'. allocate ?free = Inr (h, p')"
    using allocate_terminates_iff_exhausted [of ?free] by blast
  moreover have "allocate ?free
       = Inr (\<lparr>m_data = Some 128, m_length = 64, m_reference_count = Some 2\<rparr>,
              \<lparr>buffer_size = 64, reference_counts = [1, 1, 1, 1, 1, 1, 1, 1],
               avaliable_buffers = 8, data = Some 0, max_val = - 1\<rparr>)"
    by (simp add: allocate_def allocate_loop.simps allocate_at_def
          AudioBufferHandle_ctor_def update_cell_def ptr_add_def)
  ultimately show ?thesis by simp
qed

text \<open>
  C4. A pool of slot length \<open>2^29\<close> whose array of \<open>2^32\<close> samples starts at address 0
  has its slots 0 to 3 in use. \<^verbatim>\<open>allocate()\<close> takes slot 4, the first free one, and the
  new handle points to the count of slot 4, but its data pointer is \<open>- 2^31\<close>, in front
  of the array, where slot 4 starts at \<open>4 * 2^29 = 2^31\<close>: the product is cut to the
  \<^verbatim>\<open>int index\<close>. With slot length \<open>2^32\<close> and slot 0 in use, the handle for slot 1 gets
  the data pointer 0 of slot 0, where slot 1 starts at \<open>2^32\<close>. In both pools the
  returned handle is not over the slot it counts for.
\<close>

theorem allocate_slot_start_truncated:
  "allocate \<lparr>buffer_size = 536870912, reference_counts = [1, 1, 1, 1, 0, 0, 0, 0],
             avaliable_buffers = 8, data = Some 0, max_val = - 1\<rparr>
     = Inr (\<lparr>m_data = Some (- 2147483648), m_length = 536870912, m_reference_count = Some 4\<rparr>,
            \<lparr>buffer_size = 536870912, reference_counts = [1, 1, 1, 1, 1, 0, 0, 0],
             avaliable_buffers = 8, data = Some 0, max_val = - 1\<rparr>)
   \<and> ptr_add (Some 0) (4 * uint (536870912 :: size_t)) = Some 2147483648
   \<and> allocate \<lparr>buffer_size = 4294967296, reference_counts = [1, 0, 0, 0, 0, 0, 0, 0],
               avaliable_buffers = 8, data = Some 0, max_val = - 1\<rparr>
     = Inr (\<lparr>m_data = Some 0, m_length = 4294967296, m_reference_count = Some 1\<rparr>,
            \<lparr>buffer_size = 4294967296, reference_counts = [1, 1, 0, 0, 0, 0, 0, 0],
             avaliable_buffers = 8, data = Some 0, max_val = - 1\<rparr>)
   \<and> ptr_add (Some 0) (1 * uint (4294967296 :: size_t)) = Some 4294967296"
  by (simp add: allocate_def allocate_loop.simps allocate_at_def
        AudioBufferHandle_ctor_def update_cell_def ptr_add_def)

text \<open>
  C8. The constructor called with slot length \<open>2^61\<close> returns a pool: \<open>8 * 2^61\<close> is 0
  in \<^verbatim>\<open>std::size_t\<close>, so its array has no element. In that pool every slot is free, and
  \<^verbatim>\<open>allocate_clear()\<close> returns no zero-filled view: the first store of \<^verbatim>\<open>clear()\<close> is out
  of bounds. The same happens in a pool of slot length \<open>2^29\<close> over an array of
  \<open>2^32\<close> samples with slots 0 to 3 in use, where the view of slot 4 starts at
  \<open>- 2^31\<close>, in front of the array.
\<close>

theorem allocate_clear_out_of_bounds:
  "AudioBufferPool_ctor 2305843009213693952 \<lparr>array_at = Some 0, vector_room = True\<rparr>
      \<lparr>samples = \<lambda>_. 0 :: int, arrays = []\<rparr>
     = Inr (\<lparr>buffer_size = 2305843009213693952, reference_counts = [0, 0, 0, 0, 0, 0, 0, 0],
             avaliable_buffers = 8, data = Some 0, max_val = - 1\<rparr>,
            \<lparr>samples = \<lambda>_. 0, arrays = [(0, 0)]\<rparr>)
   \<and> allocate_clear
        \<lparr>buffer_size = 2305843009213693952, reference_counts = [0, 0, 0, 0, 0, 0, 0, 0],
         avaliable_buffers = 8, data = Some 0, max_val = - 1\<rparr>
        \<lparr>samples = \<lambda>_. 0 :: int, arrays = [(0, 0)]\<rparr>
     = Inl OutOfBounds
   \<and> allocate_clear
        \<lparr>buffer_size = 536870912, reference_counts = [1, 1, 1, 1, 0, 0, 0, 0],
         avaliable_buffers = 8, data = Some 0, max_val = - 1\<rparr>
        \<lparr>samples = \<lambda>_. 0 :: int, arrays = [(0, 4294967296)]\<rparr>
     = Inl OutOfBounds"
proof (intro conjI)
  show "AudioBufferPool_ctor 2305843009213693952 \<lparr>array_at = Some 0, vector_room = True\<rparr>
      \<lparr>samples = \<lambda>_. 0 :: int, arrays = []\<rparr>
     = Inr (\<lparr>buffer_size = 2305843009213693952, reference_counts = [0, 0, 0, 0, 0, 0, 0, 0],
             avaliable_buffers = 8, data = Some 0, max_val = - 1\<rparr>,
            \<lparr>samples = \<lambda>_. 0, arrays = [(0, 0)]\<rparr>)"
    by (simp add: AudioBufferPool_ctor_def reserve_def make_unique_def delete_array_def
          scast_number_of_buffers sizeof_float_def resize_empty_8 fun_eq_iff)
next
  let ?p = "\<lparr>buffer_size = 2305843009213693952, reference_counts = [0, 0, 0, 0, 0, 0, 0, 0],
         avaliable_buffers = 8, data = Some 0, max_val = (- 1 :: size_t)\<rparr>"
  let ?m = "\<lparr>samples = \<lambda>_. 0 :: int, arrays = [(0, 0)]\<rparr>"
  have "allocate ?p
     = Inr (\<lparr>m_data = Some 0, m_length = 2305843009213693952, m_reference_count = Some 0\<rparr>,
            ?p\<lparr>reference_counts := [1, 0, 0, 0, 0, 0, 0, 0]\<rparr>)"
    by (simp add: allocate_def allocate_loop.simps allocate_at_def
          AudioBufferHandle_ctor_def update_cell_def ptr_add_def)
  moreover have "fill 0 (unat (2305843009213693952 :: size_t)) 0 ?m = Inl OutOfBounds"
    by (rule fill_fault) (simp_all add: in_array_def)
  ultimately show "allocate_clear ?p ?m = Inl OutOfBounds"
    by (simp add: allocate_clear_def clear_def)
next
  let ?p = "\<lparr>buffer_size = 536870912, reference_counts = [1, 1, 1, 1, 0, 0, 0, 0],
         avaliable_buffers = 8, data = Some 0, max_val = (- 1 :: size_t)\<rparr>"
  let ?m = "\<lparr>samples = \<lambda>_. 0 :: int, arrays = [(0, 4294967296)]\<rparr>"
  have "allocate ?p
     = Inr (\<lparr>m_data = Some (- 2147483648), m_length = 536870912, m_reference_count = Some 4\<rparr>,
            ?p\<lparr>reference_counts := [1, 1, 1, 1, 1, 0, 0, 0]\<rparr>)"
    by (simp add: allocate_def allocate_loop.simps allocate_at_def
          AudioBufferHandle_ctor_def update_cell_def ptr_add_def)
  moreover have "fill (- 2147483648) (unat (536870912 :: size_t)) 0 ?m = Inl OutOfBounds"
    by (rule fill_fault) (simp_all add: in_array_def)
  ultimately show "allocate_clear ?p ?m = Inl OutOfBounds"
    by (simp add: allocate_clear_def clear_def)
qed

text \<open>
  C3, as the code has it. For every pool state and every new size \<open>bs\<close>: when the new
  storage can be had (its \<open>8 * bs\<close> samples, counted in \<^verbatim>\<open>std::size_t\<close>, take fewer than
  \<open>2^64\<close> bytes, the allocator gives an array, and the vector of counts need not grow
  or gets room), \<^verbatim>\<open>set_buffer_size(bs)\<close> returns with the slot length \<open>bs\<close>, \<^verbatim>\<open>data\<close> on
  the new array and 8 live-counts, and a count that was there before the call keeps
  its value (\<^verbatim>\<open>resize\<close> writes 0 only to the cells it appends), so a slot is free
  afterwards exactly when it was free before. In every other case the call ends in
  \<^verbatim>\<open>std::terminate()\<close>.
\<close>

theorem set_buffer_size_keeps_counts:
  fixes m :: "'a::zero memory"
  shows
    "(sizeof_float * unat (8 * bs) < 2 ^ 64 \<and> array_at env = Some a
        \<and> (8 \<le> length (reference_counts p) \<or> vector_room env)
      \<longrightarrow> (\<exists>p' m'. set_buffer_size bs env p m = Inr (p', m')
             \<and> buffer_size p' = bs
             \<and> data p' = Some a
             \<and> length (reference_counts p') = 8
             \<and> (\<forall>i < 8. reference_counts p' ! i
                   = (if i < length (reference_counts p) then reference_counts p ! i else 0))))
   \<and> (\<not> (sizeof_float * unat (8 * bs) < 2 ^ 64 \<and> array_at env \<noteq> None
          \<and> (8 \<le> length (reference_counts p) \<or> vector_room env))
      \<longrightarrow> set_buffer_size bs env p m = Inl Terminate)"
proof (intro conjI impI)
  assume ok: "sizeof_float * unat (8 * bs) < 2 ^ 64 \<and> array_at env = Some a
        \<and> (8 \<le> length (reference_counts p) \<or> vector_room env)"
  then have grow: "\<not> (length (reference_counts p) < 8 \<and> \<not> vector_room env)"
    by auto
  let ?m1 = "\<lparr>samples = (\<lambda>x. if a \<le> x \<and> x < a + int (unat (8 * bs)) then 0 else samples m x),
              arrays = (a, unat (8 * bs)) # arrays m\<rparr>"
  let ?p' = "p\<lparr>buffer_size := bs, data := Some a, avaliable_buffers := 8,
               reference_counts := resize 8 0 (reference_counts p)\<rparr>"
  have "make_unique (8 * bs) env m = Some (a, ?m1)"
    using ok by (simp add: make_unique_def)
  then have "set_buffer_size bs env p m = Inr (?p', delete_array (data p) ?m1)"
    using grow by (simp add: set_buffer_size_def reserve_def scast_number_of_buffers)
  moreover have "\<forall>i < 8. reference_counts ?p' ! i
                   = (if i < length (reference_counts p) then reference_counts p ! i else 0)"
    by (simp add: resize_nth)
  ultimately show "\<exists>p' m'. set_buffer_size bs env p m = Inr (p', m')
             \<and> buffer_size p' = bs
             \<and> data p' = Some a
             \<and> length (reference_counts p') = 8
             \<and> (\<forall>i < 8. reference_counts p' ! i
                   = (if i < length (reference_counts p) then reference_counts p ! i else 0))"
    by (simp add: length_resize)
next
  assume no: "\<not> (sizeof_float * unat (8 * bs) < 2 ^ 64 \<and> array_at env \<noteq> None
          \<and> (8 \<le> length (reference_counts p) \<or> vector_room env))"
  show "set_buffer_size bs env p m = Inl Terminate"
  proof (cases "make_unique (8 * bs) env m")
    case None
    then show ?thesis
      by (simp add: set_buffer_size_def reserve_def scast_number_of_buffers)
  next
    case (Some r)
    then have "sizeof_float * unat (8 * bs) < 2 ^ 64 \<and> array_at env \<noteq> None"
      by (auto simp add: make_unique_def split: if_splits option.splits)
    with no have "length (reference_counts p) < 8 \<and> \<not> vector_room env" by auto
    with Some show ?thesis
      by (cases r) (simp add: set_buffer_size_def reserve_def scast_number_of_buffers)
  qed
qed

theorem set_buffer_size_keeps_counts_witness:
  "set_buffer_size 128 \<lparr>array_at = Some 4096, vector_room = False\<rparr>
      \<lparr>buffer_size = 64, reference_counts = [1, 0, 2, 0, 0, 0, 0, 0],
       avaliable_buffers = 8, data = Some 0, max_val = - 1\<rparr>
      \<lparr>samples = \<lambda>_. 0 :: int, arrays = [(0, 512)]\<rparr>
     = Inr (\<lparr>buffer_size = 128, reference_counts = [1, 0, 2, 0, 0, 0, 0, 0],
             avaliable_buffers = 8, data = Some 4096, max_val = - 1\<rparr>,
            \<lparr>samples = \<lambda>_. 0, arrays = [(4096, 1024)]\<rparr>)
   \<and> set_buffer_size 1152921504606846976 \<lparr>array_at = Some 4096, vector_room = False\<rparr>
      \<lparr>buffer_size = 64, reference_counts = [1, 0, 2, 0, 0, 0, 0, 0],
       avaliable_buffers = 8, data = Some 0, max_val = - 1\<rparr>
      \<lparr>samples = \<lambda>_. 0 :: int, arrays = [(0, 512)]\<rparr>
     = Inl Terminate"
proof -
  let ?env = "\<lparr>array_at = Some 4096, vector_room = False\<rparr>"
  let ?p = "\<lparr>buffer_size = 64, reference_counts = [1, 0, 2, 0, 0, 0, 0, 0],
             avaliable_buffers = 8, data = Some 0, max_val = (- 1 :: size_t)\<rparr>"
  let ?m = "\<lparr>samples = \<lambda>_. 0 :: int, arrays = [(0, 512)]\<rparr>"
  have "sizeof_float * unat (8 * 128 :: size_t) < 2 ^ 64 \<and> array_at ?env = Some 4096
        \<and> (8 \<le> length (reference_counts ?p) \<or> vector_room ?env)"
    by (simp add: sizeof_float_def)
  then have "\<exists>p' m'. set_buffer_size 128 ?env ?p ?m = Inr (p', m') \<and> buffer_size p' = 128"
    using set_buffer_size_keeps_counts [of 128 ?env 4096 ?p ?m] by blast
  moreover have "set_buffer_size 128 ?env ?p ?m
     = Inr (\<lparr>buffer_size = 128, reference_counts = [1, 0, 2, 0, 0, 0, 0, 0],
             avaliable_buffers = 8, data = Some 4096, max_val = - 1\<rparr>,
            \<lparr>samples = \<lambda>_. 0, arrays = [(4096, 1024)]\<rparr>)"
    by (simp add: set_buffer_size_def reserve_def make_unique_def delete_array_def
          scast_number_of_buffers sizeof_float_def resize_def fun_eq_iff)
  moreover have "\<not> (sizeof_float * unat (8 * 1152921504606846976 :: size_t) < 2 ^ 64
          \<and> array_at ?env \<noteq> None
          \<and> (8 \<le> length (reference_counts ?p) \<or> vector_room ?env))"
    by (simp add: sizeof_float_def)
  then have "set_buffer_size 1152921504606846976 ?env ?p ?m = Inl Terminate"
    using set_buffer_size_keeps_counts [of 1152921504606846976 ?env 4096 ?p ?m] by blast
  ultimately show ?thesis by simp
qed

text \<open>
  C3 as stated does not hold. A pool built for 64 samples hands out slot 0;
  \<^verbatim>\<open>set_buffer_size(128)\<close> then leaves the count of slot 0 at 1, and the next
  \<^verbatim>\<open>allocate()\<close> takes slot 1, not slot 0. And \<^verbatim>\<open>set_buffer_size(2^60)\<close> reconfigures
  nothing: the allocation of \<open>2^63\<close> samples throws and the call ends in
  \<^verbatim>\<open>std::terminate()\<close>.
\<close>

theorem set_buffer_size_counterexample:
  "AudioBufferPool_ctor 64 \<lparr>array_at = Some 0, vector_room = True\<rparr>
      \<lparr>samples = \<lambda>_. 0 :: int, arrays = []\<rparr>
     = Inr (\<lparr>buffer_size = 64, reference_counts = [0, 0, 0, 0, 0, 0, 0, 0],
             avaliable_buffers = 8, data = Some 0, max_val = - 1\<rparr>,
            \<lparr>samples = \<lambda>_. 0, arrays = [(0, 512)]\<rparr>)
   \<and> allocate \<lparr>buffer_size = 64, reference_counts = [0, 0, 0, 0, 0, 0, 0, 0],
               avaliable_buffers = 8, data = Some 0, max_val = - 1\<rparr>
     = Inr (\<lparr>m_data = Some 0, m_length = 64, m_reference_count = Some 0\<rparr>,
            \<lparr>buffer_size = 64, reference_counts = [1, 0, 0, 0, 0, 0, 0, 0],
             avaliable_buffers = 8, data = Some 0, max_val = - 1\<rparr>)
   \<and> set_buffer_size 128 \<lparr>array_at = Some 4096, vector_room = False\<rparr>
        \<lparr>buffer_size = 64, reference_counts = [1, 0, 0, 0, 0, 0, 0, 0],
         avaliable_buffers = 8, data = Some 0, max_val = - 1\<rparr>
        \<lparr>samples = \<lambda>_. 0 :: int, arrays = [(0, 512)]\<rparr>
     = Inr (\<lparr>buffer_size = 128, reference_counts = [1, 0, 0, 0, 0, 0, 0, 0],
             avaliable_buffers = 8, data = Some 4096, max_val = - 1\<rparr>,
            \<lparr>samples = \<lambda>_. 0, arrays = [(4096, 1024)]\<rparr>)
   \<and> allocate \<lparr>buffer_size = 128, reference_counts = [1, 0, 0, 0, 0, 0, 0, 0],
               avaliable_buffers = 8, data = Some 4096, max_val = - 1\<rparr>
     = Inr (\<lparr>m_data = Some 4224, m_length = 128, m_reference_count = Some 1\<rparr>,
            \<lparr>buffer_size = 128, reference_counts = [1, 1, 0, 0, 0, 0, 0, 0],
             avaliable_buffers = 8, data = Some 4096, max_val = - 1\<rparr>)
   \<and> set_buffer_size 1152921504606846976 \<lparr>array_at = Some 4096, vector_room = False\<rparr>
        \<lparr>buffer_size = 64, reference_counts = [0, 0, 0, 0, 0, 0, 0, 0],
         avaliable_buffers = 8, data = Some 0, max_val = - 1\<rparr>
        \<lparr>samples = \<lambda>_. 0 :: int, arrays = [(0, 512)]\<rparr>
     = Inl Terminate"
proof (intro conjI)
  show "AudioBufferPool_ctor 64 \<lparr>array_at = Some 0, vector_room = True\<rparr>
      \<lparr>samples = \<lambda>_. 0 :: int, arrays = []\<rparr>
     = Inr (\<lparr>buffer_size = 64, reference_counts = [0, 0, 0, 0, 0, 0, 0, 0],
             avaliable_buffers = 8, data = Some 0, max_val = - 1\<rparr>,
            \<lparr>samples = \<lambda>_. 0, arrays = [(0, 512)]\<rparr>)"
    by (simp add: AudioBufferPool_ctor_def reserve_def make_unique_def delete_array_def
          scast_number_of_buffers sizeof_float_def resize_empty_8 fun_eq_iff)
  show "allocate \<lparr>buffer_size = 64, reference_counts = [0, 0, 0, 0, 0, 0, 0, 0],
               avaliable_buffers = 8, data = Some 0, max_val = - 1\<rparr>
     = Inr (\<lparr>m_data = Some 0, m_length = 64, m_reference_count = Some 0\<rparr>,
            \<lparr>buffer_size = 64, reference_counts = [1, 0, 0, 0, 0, 0, 0, 0],
             avaliable_buffers = 8, data = Some 0, max_val = - 1\<rparr>)"
    by (simp add: allocate_def allocate_loop.simps allocate_at_def
          AudioBufferHandle_ctor_def update_cell_def ptr_add_def)
  show "set_buffer_size 128 \<lparr>array_at = Some 4096, vector_room = False\<rparr>
        \<lparr>buffer_size = 64, reference_counts = [1, 0, 0, 0, 0, 0, 0, 0],
         avaliable_buffers = 8, data = Some 0, max_val = - 1\<rparr>
        \<lparr>samples = \<lambda>_. 0 :: int, arrays = [(0, 512)]\<rparr>
     = Inr (\<lparr>buffer_size = 128, reference_counts = [1, 0, 0, 0, 0, 0, 0, 0],
             avaliable_buffers = 8, data = Some 4096, max_val = - 1\<rparr>,
            \<lparr>samples = \<lambda>_. 0, arrays = [(4096, 1024)]\<rparr>)"
    by (simp add: set_buffer_size_def reserve_def make_unique_def delete_array_def
          scast_number_of_buffers sizeof_float_def resize_def fun_eq_iff)
  show "allocate \<lparr>buffer_size = 128, reference_counts = [1, 0, 0, 0, 0, 0, 0, 0],
               avaliable_buffers = 8, data = Some 4096, max_val = - 1\<rparr>
     = Inr (\<lparr>m_data = Some 4224, m_length = 128, m_reference_count = Some 1\<rparr>,
            \<lparr>buffer_size = 128, reference_counts = [1, 1, 0, 0, 0, 0, 0, 0],
             avaliable_buffers = 8, data = Some 4096, max_val = - 1\<rparr>)"
    by (simp add: allocate_def allocate_loop.simps allocate_at_def
          AudioBufferHandle_ctor_def update_cell_def ptr_add_def)
  show "set_buffer_size 1152921504606846976 \<lparr>array_at = Some 4096, vector_room = False\<rparr>
        \<lparr>buffer_size = 64, reference_counts = [0, 0, 0, 0, 0, 0, 0, 0],
         avaliable_buffers = 8, data = Some 0, max_val = - 1\<rparr>
        \<lparr>samples = \<lambda>_. 0 :: int, arrays = [(0, 512)]\<rparr>
     = Inl Terminate"
    by (simp add: set_buffer_size_def reserve_def make_unique_def
          scast_number_of_buffers sizeof_float_def)
qed

section \<open>Handles: construction, assignment, release, destruction\<close>

text \<open>
  C6. For a live handle \<open>h\<close> on cell \<open>r\<close>: the copy constructor raises the count of
  \<open>r\<close> by one, leaves every other count alone, and the copy has the data pointer,
  length and count pointer of \<open>h\<close>. The move constructor has no access to the counts;
  its destination has the members of \<open>h\<close> (so it reads the same count), its source is
  left with a null count pointer, and destroying that source changes no count.
\<close>

theorem copy_and_move_construct:
  assumes "live h cells"
  shows "\<exists>r. m_reference_count h = Some r
           \<and> copy_ctor h cells = Inr (h, cells[r := cells ! r + 1])
           \<and> (\<exists>dst src. move_ctor h = (dst, src)
                \<and> dst = h
                \<and> m_reference_count src = None
                \<and> AudioBufferHandle_dtor src cells = Inr cells
                \<and> reference_count dst cells = Inr (cells ! r))"
proof -
  from assms obtain r where r: "m_reference_count h = Some r" "r < length cells"
    using live_SomeD by blast
  have "copy_ctor h cells = Inr (h, cells[r := cells ! r + 1])"
    using r by (simp add: copy_ctor_def update_cell_live)
  moreover have "AudioBufferHandle_dtor (snd (move_ctor h)) cells = Inr cells"
    by (simp add: move_ctor_def AudioBufferHandle_dtor_def)
  moreover have "fst (move_ctor h) = h" "m_reference_count (snd (move_ctor h)) = None"
    by (simp_all add: move_ctor_def)
  moreover have "reference_count h cells = Inr (cells ! r)"
    using r by (simp add: reference_count_def read_cell_def)
  ultimately show ?thesis using r(1) by (cases "move_ctor h") auto
qed

theorem copy_and_move_construct_witness:
  "live \<lparr>m_data = Some 64, m_length = 64, m_reference_count = Some 1\<rparr> [1, 1]
   \<and> copy_ctor \<lparr>m_data = Some 64, m_length = 64, m_reference_count = Some 1\<rparr> [1, 1]
       = Inr (\<lparr>m_data = Some 64, m_length = 64, m_reference_count = Some 1\<rparr>, [1, 2])
   \<and> move_ctor \<lparr>m_data = Some 64, m_length = 64, m_reference_count = Some 1\<rparr>
       = (\<lparr>m_data = Some 64, m_length = 64, m_reference_count = Some 1\<rparr>,
          \<lparr>m_data = None, m_length = 64, m_reference_count = None\<rparr>)
   \<and> AudioBufferHandle_dtor \<lparr>m_data = None, m_length = 64, m_reference_count = None\<rparr> [1, 1]
       = Inr [1, 1]"
  using copy_and_move_construct
          [of "\<lparr>m_data = Some 64, m_length = 64, m_reference_count = Some 1\<rparr>" "[1, 1]"]
  by (auto simp add: live_def move_ctor_def copy_ctor_def update_cell_def
        AudioBufferHandle_dtor_def)

text \<open>
  C7. For a live handle \<open>h\<close> on cell \<open>r\<close>, \<^verbatim>\<open>h.release()\<close> returns with the count of
  \<open>r\<close> lowered by one and every other count as it was, and leaves \<open>h\<close> with a null
  count pointer; destroying \<open>h\<close> afterwards returns the counts unchanged. Over release
  followed by destruction the count falls by exactly one.
\<close>

theorem release_then_destroy_decrements_once:
  assumes "live h cells"
  shows "\<exists>r h' cells'.
           m_reference_count h = Some r
         \<and> release h cells = Inr (h', cells')
         \<and> cells' = cells[r := cells ! r - 1]
         \<and> m_reference_count h' = None
         \<and> AudioBufferHandle_dtor h' cells' = Inr cells'"
proof -
  from assms obtain r where r: "m_reference_count h = Some r" "r < length cells"
    using live_SomeD by blast
  let ?h' = "h\<lparr>m_reference_count := None, m_data := None\<rparr>"
  let ?cells' = "cells[r := cells ! r - 1]"
  have "release h cells = Inr (?h', ?cells')"
    using r by (simp add: release_def update_cell_live)
  moreover have "AudioBufferHandle_dtor ?h' ?cells' = Inr ?cells'"
    by (simp add: AudioBufferHandle_dtor_def)
  ultimately show ?thesis using r(1) by simp
qed

theorem release_then_destroy_decrements_once_witness:
  "live \<lparr>m_data = Some 0, m_length = 64, m_reference_count = Some 0\<rparr> [2, 0]
   \<and> release \<lparr>m_data = Some 0, m_length = 64, m_reference_count = Some 0\<rparr> [2, 0]
       = Inr (\<lparr>m_data = None, m_length = 64, m_reference_count = None\<rparr>, [1, 0])
   \<and> AudioBufferHandle_dtor \<lparr>m_data = None, m_length = 64, m_reference_count = None\<rparr> [1, 0]
       = Inr [1, 0]"
  using release_then_destroy_decrements_once
          [of "\<lparr>m_data = Some 0, m_length = 64, m_reference_count = Some 0\<rparr>" "[2, 0]"]
  by (auto simp add: live_def release_def update_cell_def AudioBufferHandle_dtor_def)

text \<open>
  C2. The target \<open>h\<close> holds the one share of slot 0, the source \<open>g\<close> the one share of
  slot 1. Copy-assigning \<open>g\<close> to \<open>h\<close> raises the count of slot 1 to 2 and leaves the
  count of slot 0 at 1, although no handle points to slot 0 any more; move-assigning
  writes no count at all, so slot 0 again keeps its 1. Neither assignment gives up
  the share the target held.
\<close>

theorem assignment_keeps_previous_share:
  "copy_assign \<lparr>m_data = Some 0, m_length = 64, m_reference_count = Some 0\<rparr>
               \<lparr>m_data = Some 64, m_length = 64, m_reference_count = Some 1\<rparr> [1, 1]
     = Inr (\<lparr>m_data = Some 64, m_length = 64, m_reference_count = Some 1\<rparr>, [1, 2])
   \<and> move_assign \<lparr>m_data = Some 0, m_length = 64, m_reference_count = Some 0\<rparr>
                 \<lparr>m_data = Some 64, m_length = 64, m_reference_count = Some 1\<rparr>
     = (\<lparr>m_data = Some 64, m_length = 64, m_reference_count = Some 1\<rparr>,
        \<lparr>m_data = None, m_length = 64, m_reference_count = None\<rparr>)"
  by (simp add: copy_assign_def move_assign_def update_cell_def)

section \<open>Slicing\<close>

text \<open>
  C5. For a live handle \<open>h\<close> of size \<open>L\<close> with data pointer \<open>base\<close>, and all \<open>idx\<close>,
  \<open>length\<close> with \<open>0 \<le> idx\<close>, \<open>0 \<le> length\<close> and \<open>idx + length \<le> L\<close>:
  \<^verbatim>\<open>h.slice(idx, length)\<close> returns a handle with data pointer \<open>base + idx\<close>, size
  \<open>length\<close> and the count pointer of \<open>h\<close>, and the count of that cell has gone up by
  exactly one, all others unchanged.
\<close>

theorem slice_view:
  assumes "live h cells" and "m_data h = Some base"
    and "0 \<le> sint idx" and "0 \<le> sint len" and "sint idx + sint len \<le> uint (size_h h)"
  shows "\<exists>r h'. m_reference_count h = Some r
           \<and> slice_h h idx len cells = Inr (h', cells[r := cells ! r + 1])
           \<and> m_data h' = Some (base + sint idx)
           \<and> uint (size_h h') = sint len
           \<and> m_reference_count h' = Some r"
proof -
  from assms(1) obtain r where r: "m_reference_count h = Some r" "r < length cells"
    using live_SomeD by blast
  let ?h' = "\<lparr>m_data = Some (base + sint idx), m_length = scast len, m_reference_count = Some r\<rparr>"
  have "slice_h h idx len cells = Inr (?h', cells[r := cells ! r + 1])"
    using r assms(2,4)
    by (simp add: slice_h_def AudioBufferHandle_ctor_def update_cell_live ptr_add_def)
  moreover have "uint (size_h ?h') = sint len"
    using assms(4) by (simp add: size_h_def uint_scast_nonneg)
  ultimately show ?thesis using r(1) by simp
qed

theorem slice_view_witness:
  "live \<lparr>m_data = Some 128, m_length = 64, m_reference_count = Some 2\<rparr> [0, 0, 1]
   \<and> (0::int) \<le> sint (32 :: cint) \<and> (0::int) \<le> sint (16 :: cint)
   \<and> sint (32 :: cint) + sint (16 :: cint)
       \<le> uint (size_h \<lparr>m_data = Some 128, m_length = 64, m_reference_count = Some 2\<rparr>)
   \<and> slice_h \<lparr>m_data = Some 128, m_length = 64, m_reference_count = Some 2\<rparr> 32 16 [0, 0, 1]
       = Inr (\<lparr>m_data = Some 160, m_length = 16, m_reference_count = Some 2\<rparr>, [0, 0, 2])"
  using slice_view
          [of "\<lparr>m_data = Some 128, m_length = 64, m_reference_count = Some 2\<rparr>" "[0, 0, 1]"
              128 32 16]
  by (auto simp add: live_def size_h_def slice_h_def AudioBufferHandle_ctor_def
        update_cell_def ptr_add_def)

text \<open>
  C10. On a live handle of \<open>2^31\<close> samples, \<^verbatim>\<open>slice(0, -1)\<close> (\<open>idx = 0\<close> is in
  \<open>[0, L)\<close>, the length is negative) computes the remainder \<open>2^31\<close> in \<^verbatim>\<open>std::size_t\<close>,
  the assignment to the \<^verbatim>\<open>int length\<close> makes it \<open>- 2^31\<close>, and \<^verbatim>\<open>std::size_t(length)\<close>
  is then \<open>2^64 - 2^31\<close>: the returned view does not have the size \<open>L - idx\<close>.
\<close>

theorem slice_negative_length_truncated:
  "live \<lparr>m_data = Some 0, m_length = 2147483648, m_reference_count = Some 0\<rparr> [1]
   \<and> (0::int) \<le> sint (0 :: cint)
   \<and> sint (0 :: cint) < uint (size_h \<lparr>m_data = Some 0, m_length = 2147483648, m_reference_count = Some 0\<rparr>)
   \<and> sint (- 1 :: cint) < 0
   \<and> slice_h \<lparr>m_data = Some 0, m_length = 2147483648, m_reference_count = Some 0\<rparr> 0 (- 1) [1]
       = Inr (\<lparr>m_data = Some 0, m_length = 18446744071562067968, m_reference_count = Some 0\<rparr>, [2])
   \<and> uint (size_h \<lparr>m_data = Some 0, m_length = 18446744071562067968, m_reference_count = Some 0\<rparr>)
       \<noteq> uint (size_h \<lparr>m_data = Some 0, m_length = 2147483648, m_reference_count = Some 0\<rparr>)
          - sint (0 :: cint)"
  by (simp add: live_def size_h_def slice_h_def AudioBufferHandle_ctor_def
        update_cell_def ptr_add_def)

section \<open>Process packets\<close>

text \<open>
  C9. For every packet \<open>p\<close> and every array \<open>hs\<close> of handles, \<^verbatim>\<open>p.redirect(hs)\<close> is a
  packet with the frame count of \<open>p\<close>, the shared MIDI sequence of \<open>p\<close> (the same
  sequence, hence the same events in the same order, in every store), and \<open>hs\<close> as
  its audio channels.
\<close>

theorem redirect_keeps_midi_and_nframes:
  "nframes (redirect p hs) = nframes p
   \<and> midi (redirect p hs) = midi p
   \<and> (\<forall>store. events store (midi (redirect p hs)) = events store (midi p))
   \<and> audio (redirect p hs) = hs
   \<and> length (audio (redirect p hs)) = length hs"
  by (simp add: redirect_def)

end
